theory Spec2Isabelle
  imports Complex_Main "HOL-Library.Word"
begin

unbundle bit_operations_syntax

section \<open>Values, errors and the environment of the notebook\<close>

text \<open>
  The notebook \<^verbatim>\<open>create_design_ideas.ipynb\<close> is straight-line Python over a few
  library calls. Its values are modelled by one datatype of Python objects: what
  \<^verbatim>\<open>json.loads\<close> can return, plus byte strings and decoded PIL images, the two kinds
  of object the notebook handles that JSON cannot carry.

  A Python \<^verbatim>\<open>str\<close> is a \<open>string\<close>: its characters are the code points below 256.
  A finite Python \<^verbatim>\<open>float\<close> is the rational number it denotes (the notebook only
  writes the literals 1.0, -1.0 and 0.5 and never computes with them).
\<close>

type_synonym byte = "8 word"

datatype image = Image (im_mode: string) (im_size: "nat \<times> nat") (im_data: "byte list")

datatype pyval =
    PyNone
  | PyBool bool
  | PyInt int
  | PyFloat rat
  | PyStr string
  | PyBytes "byte list"
  | PyList "pyval list"
  | PyDict "(string \<times> pyval) list"
  | PyImage image

text \<open>
  Exceptions are values. \<open>FileNotFoundError\<close> and \<open>ValueError\<close> carry the message the
  notebook formats; \<open>KeyError\<close> carries the missing key; \<open>OSError\<close> carries the errno
  of a failed system call.
\<close>

datatype error =
    FileNotFoundError string
  | ValueError string
  | TypeError
  | KeyError string
  | IndexError
  | AttributeError
  | UnicodeDecodeError
  | BinasciiError
  | OSError nat

definition and_then :: "error + 'a \<Rightarrow> ('a \<Rightarrow> error + 'b) \<Rightarrow> error + 'b" where
  "and_then m f = (case m of Inl e \<Rightarrow> Inl e | Inr x \<Rightarrow> f x)"

text \<open>
  The file system, as far as \<^verbatim>\<open>os.path.isfile\<close> and \<^verbatim>\<open>open(..., "rb").read()\<close>
  observe it: a path names a regular file with its contents, something that exists
  but is not a regular file (a directory), or nothing.
\<close>

datatype node = File "byte list" | Directory

type_synonym filesystem = "string \<rightharpoonup> node"

definition isfile :: "filesystem \<Rightarrow> string \<Rightarrow> bool" where
  "isfile fs path = (case fs path of Some (File _) \<Rightarrow> True | _ \<Rightarrow> False)"

definition open_rb_read :: "filesystem \<Rightarrow> string \<Rightarrow> error + byte list" where
  "open_rb_read fs path =
     (case fs path of
        Some (File contents) \<Rightarrow> Inr contents
      | Some Directory \<Rightarrow> Inl (OSError 21)
      | None \<Rightarrow> Inl (OSError 2))"

section \<open>Bytes and text\<close>

definition byte_of_char :: "char \<Rightarrow> byte" where
  "byte_of_char c = of_char c"

definition char_of_byte :: "byte \<Rightarrow> char" where
  "char_of_byte b = char_of (unat b)"

text \<open>
  \<^verbatim>\<open>bytes.decode("utf-8")\<close>, on the ASCII range, where UTF-8 keeps every code. A byte
  from 0x80 on starts or continues a multi-byte sequence; the model reports all of them
  as undecodable, and \<open>b64encode_ascii\<close> below shows that the notebook never decodes one.
\<close>

definition decode_utf8 :: "byte list \<Rightarrow> error + string" where
  "decode_utf8 bs =
     (if list_all (\<lambda>b. b < 0x80) bs then Inr (map char_of_byte bs)
      else Inl UnicodeDecodeError)"

text \<open>\<^verbatim>\<open>bytes(s, "utf-8")\<close>: one byte below 0x80, two bytes from there to 0xFF.\<close>

definition utf8_encode_char :: "char \<Rightarrow> byte list" where
  "utf8_encode_char c =
     (let n = (of_char c :: nat) in
      if n < 0x80 then [of_nat n]
      else [0xC0 OR of_nat (n div 64), 0x80 OR of_nat (n mod 64)])"

definition utf8_encode :: "string \<Rightarrow> byte list" where
  "utf8_encode s = concat (map utf8_encode_char s)"

section \<open>Base64\<close>

text \<open>
  \<^verbatim>\<open>base64.b64encode\<close> (RFC 4648, standard alphabet, padded, no line breaks): three
  bytes give four characters; one or two trailing bytes give two or three characters
  and padding.
\<close>

definition table_b2a_base64 :: "byte list" where
  "table_b2a_base64 =
     map byte_of_char ''ABCDEFGHIJKLMNOPQRSTUVWXYZabcdefghijklmnopqrstuvwxyz0123456789+/''"

definition BASE64_PAD :: byte where
  "BASE64_PAD = byte_of_char CHR ''=''"

definition b2a :: "byte \<Rightarrow> byte" where
  "b2a i = table_b2a_base64 ! unat (i AND 0x3f)"

fun b64encode :: "byte list \<Rightarrow> byte list" where
  "b64encode [] = []"
| "b64encode [a] =
     [b2a (drop_bit 2 a), b2a (push_bit 4 (a AND 3)), BASE64_PAD, BASE64_PAD]"
| "b64encode [a, b] =
     [b2a (drop_bit 2 a), b2a (push_bit 4 (a AND 3) OR drop_bit 4 b),
      b2a (push_bit 2 (b AND 0xf)), BASE64_PAD]"
| "b64encode (a # b # c # rest) =
     [b2a (drop_bit 2 a), b2a (push_bit 4 (a AND 3) OR drop_bit 4 b),
      b2a (push_bit 2 (b AND 0xf) OR drop_bit 6 c), b2a c] @ b64encode rest"

text \<open>
  The decoding table of \<^verbatim>\<open>binascii\<close>: the value of an alphabet character, and a
  value from 64 on for every other byte.
\<close>

definition table_a2b_base64 :: "byte \<Rightarrow> byte" where
  "table_a2b_base64 c =
     (if 0x41 \<le> c \<and> c \<le> 0x5a then c - 0x41
      else if 0x61 \<le> c \<and> c \<le> 0x7a then c - 0x61 + 26
      else if 0x30 \<le> c \<and> c \<le> 0x39 then c - 0x30 + 52
      else if c = 0x2b then 62
      else if c = 0x2f then 63
      else 0xff)"

text \<open>
  \<^verbatim>\<open>binascii.a2b_base64\<close> in its default, lenient mode, as a loop over the input with
  the variables of the C function: the position in the current group of four
  (\<open>quad_pos\<close>), the bits left over from the previous character (\<open>leftchar\<close>), the
  padding characters seen since the last data character (\<open>pads\<close>) and the output so far.
  Bytes outside the alphabet are skipped; padding that completes a group ends the
  decoding; an incomplete group at the end of the input is an error.
\<close>

fun a2b_loop :: "nat \<Rightarrow> byte \<Rightarrow> nat \<Rightarrow> byte list \<Rightarrow> byte list \<Rightarrow> error + byte list" where
  "a2b_loop quad_pos leftchar pads bin_data [] =
     (if quad_pos \<noteq> 0 then Inl BinasciiError else Inr bin_data)"
| "a2b_loop quad_pos leftchar pads bin_data (this_ch # rest) =
     (if this_ch = BASE64_PAD then
        (if 2 \<le> quad_pos \<and> 4 \<le> quad_pos + (pads + 1) then Inr bin_data
         else a2b_loop quad_pos leftchar (if 2 \<le> quad_pos then pads + 1 else pads)
                bin_data rest)
      else if 64 \<le> table_a2b_base64 this_ch then
        a2b_loop quad_pos leftchar pads bin_data rest
      else if quad_pos = 0 then
        a2b_loop 1 (table_a2b_base64 this_ch) 0 bin_data rest
      else if quad_pos = 1 then
        a2b_loop 2 (table_a2b_base64 this_ch AND 0x0f) 0
          (bin_data @ [push_bit 2 leftchar OR drop_bit 4 (table_a2b_base64 this_ch)]) rest
      else if quad_pos = 2 then
        a2b_loop 3 (table_a2b_base64 this_ch AND 0x03) 0
          (bin_data @ [push_bit 4 leftchar OR drop_bit 2 (table_a2b_base64 this_ch)]) rest
      else
        a2b_loop 0 0 0 (bin_data @ [push_bit 6 leftchar OR table_a2b_base64 this_ch]) rest)"

definition a2b_base64 :: "byte list \<Rightarrow> error + byte list" where
  "a2b_base64 data = a2b_loop 0 0 0 [] data"

text \<open>\<^verbatim>\<open>base64.decodebytes\<close> on a byte string.\<close>

definition decodebytes :: "byte list \<Rightarrow> error + byte list" where
  "decodebytes s = a2b_base64 s"

text \<open>
  \<^verbatim>\<open>base64.b64decode\<close> on a \<^verbatim>\<open>str\<close>: the text is encoded as ASCII (a \<^verbatim>\<open>ValueError\<close>
  when it is not ASCII) and decoded leniently.
\<close>

definition b64decode :: "string \<Rightarrow> error + byte list" where
  "b64decode s =
     (if list_all (\<lambda>c. (of_char c :: nat) < 0x80) s then a2b_base64 (map byte_of_char s)
      else Inl (ValueError ''string argument should contain only ASCII characters''))"

section \<open>Image to base64\<close>

text \<open>The text of \<^verbatim>\<open>type(img)\<close> in a formatted message.\<close>

fun type_repr :: "pyval \<Rightarrow> string" where
  "type_repr PyNone = ''<class 'NoneType'>''"
| "type_repr (PyBool _) = ''<class 'bool'>''"
| "type_repr (PyInt _) = ''<class 'int'>''"
| "type_repr (PyFloat _) = ''<class 'float'>''"
| "type_repr (PyStr _) = ''<class 'str'>''"
| "type_repr (PyBytes _) = ''<class 'bytes'>''"
| "type_repr (PyList _) = ''<class 'list'>''"
| "type_repr (PyDict _) = ''<class 'dict'>''"
| "type_repr (PyImage _) = ''<class 'PIL.Image.Image'>''"

text \<open>
  \<^verbatim>\<open>image_to_base64\<close> of the notebook. \<open>save_png\<close> is PIL's
  \<^verbatim>\<open>img.save(buffer, format="PNG")\<close> followed by \<^verbatim>\<open>buffer.getvalue()\<close>: the function
  is a parameter, since the encoder belongs to the library.
\<close>

definition image_to_base64 ::
  "(image \<Rightarrow> error + byte list) \<Rightarrow> filesystem \<Rightarrow> pyval \<Rightarrow> error + string" where
  "image_to_base64 save_png fs img =
     (case img of
        PyStr path \<Rightarrow>
          if isfile fs path then
            and_then (open_rb_read fs path) (\<lambda>contents. decode_utf8 (b64encode contents))
          else Inl (FileNotFoundError (''File '' @ path @ '' does not exist''))
      | PyImage im \<Rightarrow>
          and_then (save_png im) (\<lambda>buffer. decode_utf8 (b64encode buffer))
      | _ \<Rightarrow>
          Inl (ValueError (''Expected str (filename) or PIL Image. Got '' @ type_repr img)))"

text \<open>
  The cells that prepare the seed image: \<^verbatim>\<open>resize = image.resize((512,512))\<close> and
  \<^verbatim>\<open>init_image_b64 = image_to_base64(resize)\<close>. PIL's resampling is a parameter.
\<close>

definition init_image_b64 ::
  "(image \<Rightarrow> error + byte list) \<Rightarrow> (nat \<times> nat \<Rightarrow> image \<Rightarrow> image) \<Rightarrow> filesystem \<Rightarrow> image
     \<Rightarrow> error + string" where
  "init_image_b64 save_png resize fs im =
     image_to_base64 save_png fs (PyImage (resize (512, 512) im))"

text \<open>
  What the specification asks of the returned text, in its own words: it is the base64
  encoding of a PNG image of a fixed size. The size of a PNG is read off its header:
  the eight signature bytes, then the \<^verbatim>\<open>IHDR\<close> chunk with width and height as
  big-endian 32-bit numbers.
\<close>

definition png_signature :: "byte list" where
  "png_signature = [0x89, 0x50, 0x4E, 0x47, 0x0D, 0x0A, 0x1A, 0x0A]"

definition be32 :: "byte list \<Rightarrow> nat" where
  "be32 bs = foldl (\<lambda>acc b. acc * 256 + unat b) 0 bs"

definition png_size :: "byte list \<Rightarrow> (nat \<times> nat) option" where
  "png_size bs =
     (if 24 \<le> length bs \<and> take 8 bs = png_signature
         \<and> take 4 (drop 12 bs) = map byte_of_char ''IHDR''
      then Some (be32 (take 4 (drop 16 bs)), be32 (take 4 (drop 20 bs)))
      else None)"

definition spec_base64_of_sized_png :: "nat \<times> nat \<Rightarrow> string \<Rightarrow> bool" where
  "spec_base64_of_sized_png size_wanted text =
     (case b64decode text of
        Inl _ \<Rightarrow> False
      | Inr bs \<Rightarrow> png_size bs = Some size_wanted)"

text \<open>A PNG file of one pixel, 69 bytes, and a file system that holds it.\<close>

definition one_pixel_png :: "byte list" where
  "one_pixel_png =
     [137, 80, 78, 71, 13, 10, 26, 10, 0, 0, 0, 13, 73, 72, 68, 82, 0, 0, 0, 1, 0, 0, 0, 1,
      8, 2, 0, 0, 0, 144, 119, 83, 222, 0, 0, 0, 12, 73, 68, 65, 84, 120, 218, 99, 248, 207,
      192, 0, 0, 3, 1, 1, 0, 247, 3, 65, 67, 0, 0, 0, 0, 73, 69, 78, 68, 174, 66, 96, 130]"

definition catalog_fs :: filesystem where
  "catalog_fs = [''dress.png'' \<mapsto> File one_pixel_png, ''images'' \<mapsto> Directory]"

section \<open>Request assembly\<close>

text \<open>
  \<^verbatim>\<open>json.dumps\<close> with its defaults: separators \<^verbatim>\<open>", "\<close> and \<^verbatim>\<open>": "\<close>, ASCII-only
  output, a \<^verbatim>\<open>TypeError\<close> for an object that JSON cannot carry. A dict is the list of
  its items in insertion order, with distinct keys. The text of a float is Python's
  \<^verbatim>\<open>float.__repr__\<close>, a parameter.
\<close>

definition digit_char :: "nat \<Rightarrow> char" where
  "digit_char d = char_of (48 + d)"

fun nat_str :: "nat \<Rightarrow> string" where
  "nat_str n = (if n < 10 then [digit_char n] else nat_str (n div 10) @ [digit_char (n mod 10)])"

declare nat_str.simps [simp del]

definition int_str :: "int \<Rightarrow> string" where
  "int_str i = (if i < 0 then CHR ''-'' # nat_str (nat (- i)) else nat_str (nat i))"

definition hex_char :: "nat \<Rightarrow> char" where
  "hex_char d = (if d < 10 then char_of (48 + d) else char_of (87 + d))"

definition escape_ascii :: "char \<Rightarrow> string" where
  "escape_ascii c =
     (let n = (of_char c :: nat) in
      if n = 0x5C then [CHR 0x5C, CHR 0x5C]
      else if n = 0x22 then [CHR 0x5C, CHR 0x22]
      else if n = 0x08 then [CHR 0x5C, CHR ''b'']
      else if n = 0x0C then [CHR 0x5C, CHR ''f'']
      else if n = 0x0A then [CHR 0x5C, CHR ''n'']
      else if n = 0x0D then [CHR 0x5C, CHR ''r'']
      else if n = 0x09 then [CHR 0x5C, CHR ''t'']
      else if 0x20 \<le> n \<and> n \<le> 0x7E then [c]
      else [CHR 0x5C, CHR ''u'', CHR ''0'', CHR ''0'', hex_char (n div 16), hex_char (n mod 16)])"

definition py_encode_basestring_ascii :: "string \<Rightarrow> string" where
  "py_encode_basestring_ascii s = [CHR 0x22] @ concat (map escape_ascii s) @ [CHR 0x22]"

fun join :: "string \<Rightarrow> string list \<Rightarrow> string" where
  "join sep [] = []"
| "join sep [s] = s"
| "join sep (s # t # ss) = s @ sep @ join sep (t # ss)"

fun dumps :: "(rat \<Rightarrow> string) \<Rightarrow> pyval \<Rightarrow> error + string"
  and dumps_list :: "(rat \<Rightarrow> string) \<Rightarrow> pyval list \<Rightarrow> error + string list"
  and dumps_items :: "(rat \<Rightarrow> string) \<Rightarrow> (string \<times> pyval) list \<Rightarrow> error + string list"
where
  "dumps float_repr PyNone = Inr ''null''"
| "dumps float_repr (PyBool b) = Inr (if b then ''true'' else ''false'')"
| "dumps float_repr (PyInt i) = Inr (int_str i)"
| "dumps float_repr (PyFloat x) = Inr (float_repr x)"
| "dumps float_repr (PyStr s) = Inr (py_encode_basestring_ascii s)"
| "dumps float_repr (PyBytes bs) = Inl TypeError"
| "dumps float_repr (PyList xs) =
     and_then (dumps_list float_repr xs) (\<lambda>ss. Inr (''['' @ join '', '' ss @ '']''))"
| "dumps float_repr (PyDict items) =
     and_then (dumps_items float_repr items) (\<lambda>ss. Inr (''{'' @ join '', '' ss @ ''}''))"
| "dumps float_repr (PyImage im) = Inl TypeError"
| "dumps_list float_repr [] = Inr []"
| "dumps_list float_repr (x # xs) =
     and_then (dumps float_repr x) (\<lambda>s.
     and_then (dumps_list float_repr xs) (\<lambda>ss. Inr (s # ss)))"
| "dumps_items float_repr [] = Inr []"
| "dumps_items float_repr ((k, v) # items) =
     and_then (dumps float_repr v) (\<lambda>s.
     and_then (dumps_items float_repr items) (\<lambda>ss.
       Inr ((py_encode_basestring_ascii k @ '': '' @ s) # ss)))"

text \<open>
  The request of the notebook: the dict literal handed to \<^verbatim>\<open>json.dumps\<close>, with the
  list of prompt terms built by the list expression
  \<^verbatim>\<open>[{"text": change_prompt, "weight": 1.0}] + [{"text": negprompt, "weight": -1.0} for negprompt in negative_prompts]\<close>.
\<close>

definition prompt_term :: "string \<Rightarrow> rat \<Rightarrow> pyval" where
  "prompt_term text weight = PyDict [(''text'', PyStr text), (''weight'', PyFloat weight)]"

definition text_prompts :: "string \<Rightarrow> string list \<Rightarrow> pyval list" where
  "text_prompts change_prompt negative_prompts =
     [prompt_term change_prompt 1]
     @ map (\<lambda>negprompt. prompt_term negprompt (- 1)) negative_prompts"

definition request_dict :: "string \<Rightarrow> string list \<Rightarrow> string \<Rightarrow> pyval" where
  "request_dict change_prompt negative_prompts init_image =
     PyDict
       [(''text_prompts'', PyList (text_prompts change_prompt negative_prompts)),
        (''cfg_scale'', PyInt 10),
        (''init_image'', PyStr init_image),
        (''seed'', PyInt 0),
        (''start_schedule'', PyFloat (1 / 2)),
        (''steps'', PyInt 30),
        (''style_preset'', PyStr ''photographic''),
        (''image_strength'', PyFloat (1 / 2)),
        (''denoising_strength'', PyFloat (1 / 2))]"

definition sd_request ::
  "(rat \<Rightarrow> string) \<Rightarrow> string \<Rightarrow> string list \<Rightarrow> string \<Rightarrow> error + string" where
  "sd_request float_repr change_prompt negative_prompts init_image =
     dumps float_repr (request_dict change_prompt negative_prompts init_image)"

text \<open>
  The cell itself, \<^verbatim>\<open>sd_request = json.dumps({...})\<close>, as a step on the state of the
  notebook: the file system, the three variables the cell reads and the variable it
  binds, which is unbound until the cell has run. When \<^verbatim>\<open>json.dumps\<close> raises, the
  assignment does not happen and the exception is the outcome.
\<close>

datatype notebook =
  Notebook (nb_files: filesystem) (nb_change_prompt: string)
    (nb_negative_prompts: "string list") (nb_init_image_b64: string)
    (nb_sd_request: "string option")

definition bind_sd_request :: "string \<Rightarrow> notebook \<Rightarrow> notebook" where
  "bind_sd_request body nb =
     Notebook (nb_files nb) (nb_change_prompt nb) (nb_negative_prompts nb)
       (nb_init_image_b64 nb) (Some body)"

definition compose_request :: "(rat \<Rightarrow> string) \<Rightarrow> notebook \<Rightarrow> error + notebook" where
  "compose_request float_repr nb =
     and_then
       (sd_request float_repr (nb_change_prompt nb) (nb_negative_prompts nb)
          (nb_init_image_b64 nb))
       (\<lambda>body. Inr (bind_sd_request body nb))"

section \<open>Response decoding\<close>

text \<open>
  The last cell works on \<^verbatim>\<open>response_body\<close>, the value \<^verbatim>\<open>json.loads\<close> returned:
  \<^verbatim>\<open>response_body["artifacts"][0].get("base64")\<close>, then
  \<^verbatim>\<open>Image.open(io.BytesIO(base64.decodebytes(bytes(genimage_b64_str, "utf-8"))))\<close>.
  Each operation is modelled on every kind of object, with the exception Python raises
  where the object does not support it. \<open>image_open\<close> is PIL's decoder, a parameter.
\<close>

fun getitem_str :: "pyval \<Rightarrow> string \<Rightarrow> error + pyval" where
  "getitem_str (PyDict items) key =
     (case map_of items key of None \<Rightarrow> Inl (KeyError key) | Some v \<Rightarrow> Inr v)"
| "getitem_str _ key = Inl TypeError"

fun getitem_0 :: "pyval \<Rightarrow> error + pyval" where
  "getitem_0 (PyList []) = Inl IndexError"
| "getitem_0 (PyList (x # xs)) = Inr x"
| "getitem_0 (PyStr []) = Inl IndexError"
| "getitem_0 (PyStr (c # cs)) = Inr (PyStr [c])"
| "getitem_0 (PyBytes []) = Inl IndexError"
| "getitem_0 (PyBytes (b # bs)) = Inr (PyInt (uint b))"
| "getitem_0 (PyDict items) = Inl (KeyError ''0'')"
| "getitem_0 _ = Inl TypeError"

fun py_get :: "pyval \<Rightarrow> string \<Rightarrow> error + pyval" where
  "py_get (PyDict items) key =
     Inr (case map_of items key of None \<Rightarrow> PyNone | Some v \<Rightarrow> v)"
| "py_get _ key = Inl AttributeError"

fun bytes_utf8 :: "pyval \<Rightarrow> error + byte list" where
  "bytes_utf8 (PyStr s) = Inr (utf8_encode s)"
| "bytes_utf8 _ = Inl TypeError"

definition genimage_b64_str :: "pyval \<Rightarrow> error + pyval" where
  "genimage_b64_str response_body =
     and_then (getitem_str response_body ''artifacts'') (\<lambda>artifacts.
     and_then (getitem_0 artifacts) (\<lambda>artifact.
       py_get artifact ''base64''))"

definition genimage :: "(byte list \<Rightarrow> error + image) \<Rightarrow> pyval \<Rightarrow> error + image" where
  "genimage image_open response_body =
     and_then (genimage_b64_str response_body) (\<lambda>b64_str.
     and_then (bytes_utf8 b64_str) (\<lambda>b64_bytes.
     and_then (decodebytes b64_bytes) image_open))"

section \<open>Base64 decoding inverts encoding\<close>

text \<open>The alphabet as bytes, and the decoding table on each of its 64 entries.\<close>

lemma table_roundtrip_all:
  "list_all (\<lambda>k. table_a2b_base64 (table_b2a_base64 ! k) = of_nat k
       \<and> table_b2a_base64 ! k < 0x80 \<and> table_b2a_base64 ! k \<noteq> BASE64_PAD) [0..<64]"
  by (simp add: upt_rec table_b2a_base64_def table_a2b_base64_def BASE64_PAD_def
      byte_of_char_def)

lemma table_roundtrip:
  assumes "k < 64"
  shows "table_a2b_base64 (table_b2a_base64 ! k) = of_nat k"
    and "table_b2a_base64 ! k < 0x80"
    and "table_b2a_base64 ! k \<noteq> BASE64_PAD"
  using assms table_roundtrip_all unfolding list_all_iff by auto

lemma unat_and63: "unat ((i::byte) AND 0x3f) < 64"
proof -
  have "i AND 0x3f \<le> 0x3f" by (rule word_and_le1)
  then have "unat (i AND 0x3f) \<le> unat (0x3f::byte)" by (simp add: word_le_nat_alt)
  then show ?thesis by simp
qed

lemma a2b_b2a: "table_a2b_base64 (b2a i) = i AND 0x3f"
  unfolding b2a_def using table_roundtrip(1)[OF unat_and63[of i]] by simp

lemma b2a_ascii: "b2a i < 0x80"
  unfolding b2a_def using table_roundtrip(2)[OF unat_and63[of i]] by simp

lemma b2a_not_pad: "b2a i \<noteq> BASE64_PAD"
  unfolding b2a_def using table_roundtrip(3)[OF unat_and63[of i]] by simp

lemma mask_numerals:
  "(3::byte) = mask 2" "(15::byte) = mask 4" "(63::byte) = mask 6"
  by (simp_all add: mask_eq_exp_minus_1)

lemma Suc_Suc_diff2: "2 \<le> n \<Longrightarrow> Suc (Suc (n - 2)) = n"
  by simp

lemma join_first:
  "push_bit 2 (drop_bit 2 a AND 63) OR
   drop_bit 4 ((push_bit 4 (a AND 3) OR drop_bit 4 b) AND 63) = (a::byte)"
  unfolding mask_numerals
proof (rule bit_word_eqI)
  fix n assume "n < LENGTH(8)"
  then show "bit (push_bit 2 (drop_bit 2 a AND mask 6) OR
          drop_bit 4 ((push_bit 4 (a AND mask 2) OR drop_bit 4 b) AND mask 6)) n = bit a n"
    by (cases "2 \<le> n") (auto simp: bit_simps Suc_Suc_diff2)
qed

lemma join_second:
  "push_bit 4 (((push_bit 4 (a AND 3) OR drop_bit 4 b) AND 63) AND 15) OR
   drop_bit 2 ((push_bit 2 (b AND 15) OR drop_bit 6 c) AND 63) = (b::byte)"
  unfolding mask_numerals
proof (rule bit_word_eqI)
  fix n assume "n < LENGTH(8)"
  then show "bit (push_bit 4 (((push_bit 4 (a AND mask 2) OR drop_bit 4 b) AND mask 6) AND mask 4) OR
          drop_bit 2 ((push_bit 2 (b AND mask 4) OR drop_bit 6 c) AND mask 6)) n = bit b n"
    by (cases "4 \<le> n") (auto simp: bit_simps)
qed

lemma join_third:
  "push_bit 6 (((push_bit 2 (b AND 15) OR drop_bit 6 c) AND 63) AND 3) OR (c AND 63) = (c::byte)"
  unfolding mask_numerals
  by (rule bit_word_eqI) (auto simp: bit_simps)

lemma and63_valid: "\<not> 64 \<le> (i::byte) AND 63"
proof -
  have "i AND 63 \<le> 63" by (rule word_and_le1)
  then show ?thesis by (simp add: word_le_nat_alt)
qed

lemma a2b_loop_data:
  "a2b_loop q l p out (b2a i # rest) =
     (if q = 0 then a2b_loop 1 (i AND 63) 0 out rest
      else if q = 1 then
        a2b_loop 2 ((i AND 63) AND 15) 0 (out @ [push_bit 2 l OR drop_bit 4 (i AND 63)]) rest
      else if q = 2 then
        a2b_loop 3 ((i AND 63) AND 3) 0 (out @ [push_bit 4 l OR drop_bit 2 (i AND 63)]) rest
      else a2b_loop 0 0 0 (out @ [push_bit 6 l OR (i AND 63)]) rest)"
  by (simp only: a2b_loop.simps a2b_b2a b2a_not_pad and63_valid if_False)

lemma a2b_loop_data0: "a2b_loop 0 l p out (b2a i # rest) = a2b_loop 1 (i AND 63) 0 out rest"
  by (simp only: a2b_loop_data) simp

lemma a2b_loop_data1:
  "a2b_loop 1 l p out (b2a i # rest) =
   a2b_loop 2 ((i AND 63) AND 15) 0 (out @ [push_bit 2 l OR drop_bit 4 (i AND 63)]) rest"
  by (simp only: a2b_loop_data) simp

lemma a2b_loop_data2:
  "a2b_loop 2 l p out (b2a i # rest) =
   a2b_loop 3 ((i AND 63) AND 3) 0 (out @ [push_bit 4 l OR drop_bit 2 (i AND 63)]) rest"
  by (simp only: a2b_loop_data) simp

lemma a2b_loop_data3:
  "a2b_loop 3 l p out (b2a i # rest) = a2b_loop 0 0 0 (out @ [push_bit 6 l OR (i AND 63)]) rest"
  by (simp only: a2b_loop_data) simp

lemma a2b_loop_pad2: "a2b_loop 2 l 0 out (BASE64_PAD # BASE64_PAD # rest) = Inr out"
  by simp

lemma a2b_loop_pad3: "a2b_loop 3 l 0 out (BASE64_PAD # rest) = Inr out"
  by simp

lemma join_first_pad:
  "push_bit 2 (drop_bit 2 a AND 63) OR drop_bit 4 (push_bit 4 (a AND 3) AND 63) = (a::byte)"
  using join_first[of a 0] by simp

lemma join_second_pad:
  "push_bit 4 (((push_bit 4 (a AND 3) OR drop_bit 4 b) AND 63) AND 15) OR
   drop_bit 2 (push_bit 2 (b AND 15) AND 63) = (b::byte)"
  using join_second[of a b 0] by simp

lemma a2b_loop_b64encode: "a2b_loop 0 l p out (b64encode bs) = Inr (out @ bs)"
proof (induction bs arbitrary: l p out rule: b64encode.induct)
  case 1
  show ?case by simp
next
  case (2 a)
  show ?case
    by (simp only: b64encode.simps a2b_loop_data0 a2b_loop_data1 a2b_loop_data2 a2b_loop_data3 append_assoc append_Cons append_Nil
        join_first_pad a2b_loop_pad2)
next
  case (3 a b)
  show ?case
    by (simp only: b64encode.simps a2b_loop_data0 a2b_loop_data1 a2b_loop_data2 a2b_loop_data3 append_assoc append_Cons append_Nil
        join_first join_second_pad a2b_loop_pad3)
next
  case (4 a b c rest)
  have "a2b_loop 0 l p out (b64encode (a # b # c # rest)) =
        a2b_loop 0 0 0 (out @ [a, b, c]) (b64encode rest)"
    by (simp only: b64encode.simps a2b_loop_data0 a2b_loop_data1 a2b_loop_data2 a2b_loop_data3 append_assoc append_Cons append_Nil
        join_first join_second join_third)
  also have "\<dots> = Inr ((out @ [a, b, c]) @ rest)"
    by (rule "4.IH")
  finally show ?case by simp
qed

lemma a2b_base64_b64encode: "a2b_base64 (b64encode bs) = Inr bs"
  by (simp add: a2b_base64_def a2b_loop_b64encode)

lemma b64encode_ascii: "list_all (\<lambda>b. b < 0x80) (b64encode bs)"
  by (induction bs rule: b64encode.induct) (simp_all add: b2a_ascii BASE64_PAD_def byte_of_char_def)

lemma byte_of_char_of_byte: "byte_of_char (char_of_byte b) = b"
proof -
  have "unat b < 256" using unsigned_less[of b, where ?'a=nat] by simp
  then have "(of_char (char_of (unat b)) :: nat) = unat b" by simp
  then have "(of_nat (of_char (char_of (unat b)) :: nat) :: byte) = b" by simp
  then show ?thesis by (simp only: byte_of_char_def char_of_byte_def of_nat_of_char)
qed

lemma char_of_byte_ascii: "b < 0x80 \<Longrightarrow> (of_char (char_of_byte b) :: nat) < 0x80"
  by (simp add: char_of_byte_def word_less_nat_alt)

lemma decode_utf8_b64encode: "decode_utf8 (b64encode bs) = Inr (map char_of_byte (b64encode bs))"
  by (simp add: decode_utf8_def b64encode_ascii)

lemma b64decode_text: "b64decode (map char_of_byte (b64encode bs)) = Inr bs"
proof -
  have "list_all (\<lambda>c. (of_char c :: nat) < 0x80) (map char_of_byte (b64encode bs))"
    using b64encode_ascii[of bs] by (simp add: list_all_iff char_of_byte_ascii)
  moreover have "map byte_of_char (map char_of_byte (b64encode bs)) = b64encode bs"
    by (simp add: comp_def byte_of_char_of_byte)
  ultimately show ?thesis
    by (simp only: b64decode_def if_True a2b_base64_b64encode)
qed


lemma char_of_byte_of_char: "char_of_byte (byte_of_char c) = c"
proof -
  have "(of_char c :: byte) = of_nat (of_char c :: nat)"
    by (simp only: of_nat_of_char)
  then have "unat (of_char c :: byte) = (of_char c :: nat) mod 2 ^ LENGTH(8)"
    by (simp only: unat_of_nat)
  moreover have "(of_char c :: nat) < 256"
    by (rule nat_of_char_less_256)
  ultimately have "unat (of_char c :: byte) = (of_char c :: nat)"
    by simp
  then show ?thesis
    by (simp only: byte_of_char_def char_of_byte_def char_of_char)
qed

lemma char_of_byte_eq_iff: "char_of_byte b = c \<longleftrightarrow> b = byte_of_char c"
  using byte_of_char_of_byte char_of_byte_of_char by metis

lemma not_64_le_small: "\<not> 64 \<le> (1::byte)" "\<not> 64 \<le> (0::byte)"
  by (simp_all add: word_le_nat_alt)

lemma one_pixel_png_text:
  "map char_of_byte (b64encode one_pixel_png) =
   ''iVBORw0KGgoAAAANSUhEUgAAAAEAAAABCAIAAACQd1PeAAAADElEQVR42mP4z8AAAAMBAQD3A0FDAAAAAElFTkSuQmCC''"
  by (simp add: one_pixel_png_def b2a_def table_b2a_base64_def char_of_byte_eq_iff
      byte_of_char_def)

lemma one_pixel_png_size: "png_size one_pixel_png = Some (1, 1)"
  by (simp add: png_size_def one_pixel_png_def png_signature_def be32_def byte_of_char_def)

lemma image_to_base64_file:
  "fs path = Some (File contents) \<Longrightarrow>
   image_to_base64 save_png fs (PyStr path) = Inr (map char_of_byte (b64encode contents))"
  by (simp add: image_to_base64_def isfile_def open_rb_read_def and_then_def
      decode_utf8_b64encode)

lemma image_to_base64_image:
  "save_png im = Inr buffer \<Longrightarrow>
   image_to_base64 save_png fs (PyImage im) = Inr (map char_of_byte (b64encode buffer))"
  by (simp add: image_to_base64_def and_then_def decode_utf8_b64encode)

lemma catalog_fs_dress: "catalog_fs ''dress.png'' = Some (File one_pixel_png)"
  by (simp add: catalog_fs_def)

lemma catalog_fs_images: "catalog_fs ''images'' = Some Directory"
  by (simp add: catalog_fs_def)

lemma catalog_fs_shirt: "catalog_fs ''shirt.png'' = None"
  by (simp add: catalog_fs_def)

section \<open>Image to base64: the claims\<close>

text \<open>
  C3. For every path that names an existing file, the conversion returns a text whose
  base64 decoding is the file's contents, byte for byte.
\<close>

theorem image_to_base64_file_roundtrip:
  assumes "fs path = Some (File contents)"
  shows "\<exists>text. image_to_base64 save_png fs (PyStr path) = Inr text
           \<and> b64decode text = Inr contents"
  using image_to_base64_file [of fs path contents save_png] assms b64decode_text by simp

theorem image_to_base64_file_roundtrip_witness:
  "catalog_fs ''dress.png'' = Some (File one_pixel_png)
   \<and> (\<forall>save_png. \<exists>text.
         image_to_base64 save_png catalog_fs (PyStr ''dress.png'') = Inr text
         \<and> b64decode text = Inr one_pixel_png)"
  using image_to_base64_file_roundtrip [of catalog_fs "''dress.png''" one_pixel_png]
    catalog_fs_dress
  by blast

text \<open>
  C2, as the specification states it: for every valid input, the file-path branch
  included, the returned text is the base64 encoding of a PNG image resized to 512 by
  512. It fails on the file branch: the one-pixel PNG file comes back as the base64 of
  its own bytes, a PNG of size 1 by 1.
\<close>

theorem image_to_base64_file_not_resized:
  "(\<forall>save_png. image_to_base64 save_png catalog_fs (PyStr ''dress.png'') =
      Inr ''iVBORw0KGgoAAAANSUhEUgAAAAEAAAABCAIAAACQd1PeAAAADElEQVR42mP4z8AAAAMBAQD3A0FDAAAAAElFTkSuQmCC'')
   \<and> spec_base64_of_sized_png (1, 1)
       ''iVBORw0KGgoAAAANSUhEUgAAAAEAAAABCAIAAACQd1PeAAAADElEQVR42mP4z8AAAAMBAQD3A0FDAAAAAElFTkSuQmCC''
   \<and> \<not> spec_base64_of_sized_png (512, 512)
       ''iVBORw0KGgoAAAANSUhEUgAAAAEAAAABCAIAAACQd1PeAAAADElEQVR42mP4z8AAAAMBAQD3A0FDAAAAAElFTkSuQmCC''"
proof -
  have dec: "b64decode
      ''iVBORw0KGgoAAAANSUhEUgAAAAEAAAABCAIAAACQd1PeAAAADElEQVR42mP4z8AAAAMBAQD3A0FDAAAAAElFTkSuQmCC''
      = Inr one_pixel_png"
    using b64decode_text [of one_pixel_png] by (simp only: one_pixel_png_text)
  have "\<And>save_png. image_to_base64 save_png catalog_fs (PyStr ''dress.png'') =
      Inr ''iVBORw0KGgoAAAANSUhEUgAAAAEAAAABCAIAAACQd1PeAAAADElEQVR42mP4z8AAAAMBAQD3A0FDAAAAAElFTkSuQmCC''"
    using image_to_base64_file [of catalog_fs "''dress.png''" one_pixel_png, OF catalog_fs_dress]
    by (simp only: one_pixel_png_text)
  then show ?thesis
    by (simp add: spec_base64_of_sized_png_def dec one_pixel_png_size)
qed

text \<open>
  C2, amended to what the code does. For an existing file the returned text is the
  base64 encoding of the file's bytes as they are. For a decoded image it is the base64
  encoding of the PNG encoding of that image, at the size it has. The fixed size comes
  from the caller: the notebook resizes to 512 by 512 first, so the seed image it sends
  is the base64 of the PNG encoding of the resized copy.
\<close>

theorem image_to_base64_encodes_input_as_given:
  "(fs path = Some (File contents) \<longrightarrow>
      image_to_base64 save_png fs (PyStr path) = Inr (map char_of_byte (b64encode contents)))
   \<and> (save_png im = Inr buffer \<longrightarrow>
      image_to_base64 save_png fs (PyImage im) = Inr (map char_of_byte (b64encode buffer)))
   \<and> (save_png (resize (512, 512) im) = Inr resized_buffer \<longrightarrow>
      init_image_b64 save_png resize fs im =
        Inr (map char_of_byte (b64encode resized_buffer)))"
  by (simp add: image_to_base64_file image_to_base64_image init_image_b64_def)

theorem image_to_base64_encodes_input_as_given_witness:
  "catalog_fs ''dress.png'' = Some (File one_pixel_png)
   \<and> image_to_base64 (\<lambda>im. Inr (png_signature @ im_data im)) catalog_fs (PyStr ''dress.png'')
       = Inr (map char_of_byte (b64encode one_pixel_png))
   \<and> (\<lambda>im. Inr (png_signature @ im_data im)) (Image ''RGB'' (1, 1) [255, 0, 0])
       = (Inr (png_signature @ [255, 0, 0]) :: error + byte list)
   \<and> image_to_base64 (\<lambda>im. Inr (png_signature @ im_data im)) catalog_fs
         (PyImage (Image ''RGB'' (1, 1) [255, 0, 0]))
       = Inr (map char_of_byte (b64encode (png_signature @ [255, 0, 0])))
   \<and> init_image_b64 (\<lambda>im. Inr (png_signature @ im_data im))
         (\<lambda>size_wanted im. Image (im_mode im) size_wanted []) catalog_fs
         (Image ''RGB'' (1, 1) [255, 0, 0])
       = Inr (map char_of_byte (b64encode png_signature))"
  using image_to_base64_encodes_input_as_given
    [of catalog_fs "''dress.png''" one_pixel_png "\<lambda>im. Inr (png_signature @ im_data im)"
        "Image ''RGB'' (1, 1) [255, 0, 0]" "png_signature @ [255, 0, 0]"
        "\<lambda>size_wanted im. Image (im_mode im) size_wanted []" png_signature]
    catalog_fs_dress
  by simp

text \<open>
  C5. For every string that is not the path of an existing regular file, the conversion
  fails with the "file does not exist" condition and returns no value.
\<close>

theorem image_to_base64_not_found:
  assumes "\<not> isfile fs path"
  shows "image_to_base64 save_png fs (PyStr path) =
           Inl (FileNotFoundError (''File '' @ path @ '' does not exist''))"
  using assms by (simp add: image_to_base64_def)

theorem image_to_base64_not_found_witness:
  "\<not> isfile catalog_fs ''shirt.png''
   \<and> (\<forall>save_png. image_to_base64 save_png catalog_fs (PyStr ''shirt.png'') =
         Inl (FileNotFoundError ''File shirt.png does not exist''))"
proof -
  have missing: "\<not> isfile catalog_fs ''shirt.png''"
    by (simp add: isfile_def catalog_fs_shirt)
  show ?thesis
    using image_to_base64_not_found [of catalog_fs "''shirt.png''", OF missing] missing by simp
qed

text \<open>
  C9. A string that names something that exists but is not a regular file, such as a
  directory, fails the regular-file test, so the conversion raises the "file does not
  exist" condition and not the "wrong type" one.
\<close>

theorem image_to_base64_directory:
  assumes "fs path = Some Directory"
  shows "\<not> isfile fs path
         \<and> image_to_base64 save_png fs (PyStr path) =
             Inl (FileNotFoundError (''File '' @ path @ '' does not exist''))
         \<and> (\<forall>message. image_to_base64 save_png fs (PyStr path) \<noteq> Inl (ValueError message))"
  using assms by (simp add: image_to_base64_def isfile_def)

theorem image_to_base64_directory_witness:
  "catalog_fs ''images'' = Some Directory
   \<and> (\<forall>save_png. image_to_base64 save_png catalog_fs (PyStr ''images'') =
         Inl (FileNotFoundError ''File images does not exist''))"
  using image_to_base64_directory [of catalog_fs "''images''", OF catalog_fs_images]
    catalog_fs_images
  by simp

text \<open>
  C6. For every input that is neither a string nor a decoded image, an integer for
  one, the conversion fails with the "wrong type" condition, whose message names the
  type it got, and returns no value.
\<close>

theorem image_to_base64_wrong_type:
  assumes "\<forall>path. img \<noteq> PyStr path" and "\<forall>im. img \<noteq> PyImage im"
  shows "image_to_base64 save_png fs img =
           Inl (ValueError (''Expected str (filename) or PIL Image. Got '' @ type_repr img))"
  using assms by (cases img) (simp_all add: image_to_base64_def)

theorem image_to_base64_wrong_type_witness:
  "(\<forall>path. PyInt 7 \<noteq> PyStr path) \<and> (\<forall>im. PyInt 7 \<noteq> PyImage im)
   \<and> (\<forall>save_png fs. image_to_base64 save_png fs (PyInt 7) =
         Inl (ValueError ''Expected str (filename) or PIL Image. Got <class 'int'>''))"
proof -
  have not_str: "\<forall>path. PyInt 7 \<noteq> PyStr path" and not_image: "\<forall>im. PyInt 7 \<noteq> PyImage im"
    by simp_all
  show ?thesis
    using image_to_base64_wrong_type [OF not_str not_image] by simp
qed

section \<open>Request assembly: the claims\<close>

text \<open>
  C1. For every positive prompt and every list of \<open>n\<close> negative prompts, the
  \<^verbatim>\<open>text_prompts\<close> entry of the request holds \<open>n + 1\<close> terms: first the positive
  prompt with weight 1.0, then the negative prompts with weight -1.0, in input order.
  The witness is the notebook's own input: "add floral prints to dress" and four
  negative prompts give five terms.
\<close>

theorem text_prompts_order:
  "getitem_str (request_dict change_prompt negative_prompts init_image) ''text_prompts'' =
     Inr (PyList (text_prompts change_prompt negative_prompts))
   \<and> length (text_prompts change_prompt negative_prompts) = length negative_prompts + 1
   \<and> hd (text_prompts change_prompt negative_prompts) = prompt_term change_prompt 1
   \<and> tl (text_prompts change_prompt negative_prompts) =
       map (\<lambda>negprompt. prompt_term negprompt (- 1)) negative_prompts
   \<and> (\<forall>i < length negative_prompts.
         text_prompts change_prompt negative_prompts ! (i + 1) =
           prompt_term (negative_prompts ! i) (- 1))"
  by (simp add: request_dict_def text_prompts_def)

theorem text_prompts_order_witness:
  "length (text_prompts ''add floral prints to dress''
       [''poorly rendered'', ''low quality'', ''disfigured'', ''disproportional'']) = 5
   \<and> hd (text_prompts ''add floral prints to dress''
       [''poorly rendered'', ''low quality'', ''disfigured'', ''disproportional''])
     = PyDict [(''text'', PyStr ''add floral prints to dress''), (''weight'', PyFloat 1)]
   \<and> tl (text_prompts ''add floral prints to dress''
       [''poorly rendered'', ''low quality'', ''disfigured'', ''disproportional''])
     = [PyDict [(''text'', PyStr ''poorly rendered''), (''weight'', PyFloat (- 1))],
        PyDict [(''text'', PyStr ''low quality''), (''weight'', PyFloat (- 1))],
        PyDict [(''text'', PyStr ''disfigured''), (''weight'', PyFloat (- 1))],
        PyDict [(''text'', PyStr ''disproportional''), (''weight'', PyFloat (- 1))]]
   \<and> (3::nat) < length [''poorly rendered'', ''low quality'', ''disfigured'', ''disproportional'']
   \<and> text_prompts ''add floral prints to dress''
       [''poorly rendered'', ''low quality'', ''disfigured'', ''disproportional''] ! (3 + 1)
     = PyDict [(''text'', PyStr ''disproportional''), (''weight'', PyFloat (- 1))]"
proof -
  let ?ns = "[''poorly rendered'', ''low quality'', ''disfigured'', ''disproportional'']"
  have in_range: "(3::nat) < length ?ns" by simp
  note facts = text_prompts_order [of "''add floral prints to dress''" ?ns "''iVBORw0KGgo=''"]
  have last_term: "text_prompts ''add floral prints to dress'' ?ns ! (3 + 1) =
      prompt_term (?ns ! 3) (- 1)"
    using facts in_range by blast
  show ?thesis
    using facts last_term by (simp add: prompt_term_def)
qed

lemma json_key_texts:
  \<open>py_encode_basestring_ascii ''text'' = ''"text"''\<close>
  \<open>py_encode_basestring_ascii ''weight'' = ''"weight"''\<close>
  \<open>py_encode_basestring_ascii ''text_prompts'' = ''"text_prompts"''\<close>
  \<open>py_encode_basestring_ascii ''cfg_scale'' = ''"cfg_scale"''\<close>
  \<open>py_encode_basestring_ascii ''init_image'' = ''"init_image"''\<close>
  \<open>py_encode_basestring_ascii ''seed'' = ''"seed"''\<close>
  \<open>py_encode_basestring_ascii ''start_schedule'' = ''"start_schedule"''\<close>
  \<open>py_encode_basestring_ascii ''steps'' = ''"steps"''\<close>
  \<open>py_encode_basestring_ascii ''style_preset'' = ''"style_preset"''\<close>
  \<open>py_encode_basestring_ascii ''photographic'' = ''"photographic"''\<close>
  \<open>py_encode_basestring_ascii ''image_strength'' = ''"image_strength"''\<close>
  \<open>py_encode_basestring_ascii ''denoising_strength'' = ''"denoising_strength"''\<close>
  by (simp_all add: py_encode_basestring_ascii_def escape_ascii_def)

lemma json_int_texts: "int_str 10 = ''10''" "int_str 0 = ''0''" "int_str 30 = ''30''"
  by (simp_all add: int_str_def nat_str.simps [of 10] nat_str.simps [of "Suc 0"] nat_str.simps [of 0]
      nat_str.simps [of 30] nat_str.simps [of 3] digit_char_def char_of_eq_iff)

lemma dumps_prompt_term:
  \<open>dumps float_repr (prompt_term text weight) =
     Inr (''{"text": '' @ py_encode_basestring_ascii text
          @ '', "weight": '' @ float_repr weight @ ''}'')\<close>
  by (simp add: prompt_term_def and_then_def json_key_texts)

lemma dumps_list_prompt_terms:
  \<open>dumps_list float_repr (map (\<lambda>negprompt. prompt_term negprompt weight) ns) =
     Inr (map (\<lambda>negprompt. ''{"text": '' @ py_encode_basestring_ascii negprompt
                 @ '', "weight": '' @ float_repr weight @ ''}'') ns)\<close>
  by (induction ns) (simp_all add: and_then_def dumps_prompt_term)

lemma dumps_list_text_prompts:
  \<open>dumps_list float_repr (text_prompts change_prompt negative_prompts) =
     Inr ((''{"text": '' @ py_encode_basestring_ascii change_prompt
            @ '', "weight": '' @ float_repr 1 @ ''}'')
          # map (\<lambda>negprompt. ''{"text": '' @ py_encode_basestring_ascii negprompt
                   @ '', "weight": '' @ float_repr (- 1) @ ''}'') negative_prompts)\<close>
  by (simp add: text_prompts_def and_then_def dumps_prompt_term dumps_list_prompt_terms)

lemma sd_request_body:
  \<open>sd_request float_repr change_prompt negative_prompts init_image =
     Inr (''{"text_prompts": [''
          @ join '', ''
              ((''{"text": '' @ py_encode_basestring_ascii change_prompt
                  @ '', "weight": '' @ float_repr 1 @ ''}'')
               # map (\<lambda>negprompt. ''{"text": '' @ py_encode_basestring_ascii negprompt
                        @ '', "weight": '' @ float_repr (- 1) @ ''}'') negative_prompts)
          @ ''], "cfg_scale": 10, "init_image": '' @ py_encode_basestring_ascii init_image
          @ '', "seed": 0, "start_schedule": '' @ float_repr (1 / 2)
          @ '', "steps": 30, "style_preset": "photographic", "image_strength": ''
          @ float_repr (1 / 2)
          @ '', "denoising_strength": '' @ float_repr (1 / 2) @ ''}'')\<close>
  by (simp add: sd_request_def request_dict_def and_then_def dumps_list_text_prompts
      json_key_texts json_int_texts)

text \<open>
  C8. Request assembly is total, pure and deterministic. For every positive prompt,
  every list of negative prompts and every seed image text, \<^verbatim>\<open>json.dumps\<close> raises
  nothing and returns the JSON text of the request: the prompt terms in order, then the
  configuration of the notebook, each string escaped as JSON. Run as a cell in any state
  of the notebook that holds these three inputs, it binds \<^verbatim>\<open>sd_request\<close> to that text
  and changes nothing else: the file system and the other variables stay as they were.
  The text is the same in every such state, whatever the files hold and whatever
  \<^verbatim>\<open>sd_request\<close> was bound to before.
\<close>

theorem sd_request_pure_total:
  \<open>\<exists>body.
     body =
       ''{"text_prompts": [''
       @ join '', ''
           ((''{"text": '' @ py_encode_basestring_ascii change_prompt
               @ '', "weight": '' @ float_repr 1 @ ''}'')
            # map (\<lambda>negprompt. ''{"text": '' @ py_encode_basestring_ascii negprompt
                     @ '', "weight": '' @ float_repr (- 1) @ ''}'') negative_prompts)
       @ ''], "cfg_scale": 10, "init_image": '' @ py_encode_basestring_ascii init_image
       @ '', "seed": 0, "start_schedule": '' @ float_repr (1 / 2)
       @ '', "steps": 30, "style_preset": "photographic", "image_strength": ''
       @ float_repr (1 / 2)
       @ '', "denoising_strength": '' @ float_repr (1 / 2) @ ''}''
     \<and> sd_request float_repr change_prompt negative_prompts init_image = Inr body
     \<and> (\<forall>nb. nb_change_prompt nb = change_prompt
               \<and> nb_negative_prompts nb = negative_prompts
               \<and> nb_init_image_b64 nb = init_image
           \<longrightarrow> compose_request float_repr nb =
                 Inr (Notebook (nb_files nb) change_prompt negative_prompts init_image
                        (Some body)))\<close>
  by (simp add: sd_request_body compose_request_def bind_sd_request_def and_then_def)

theorem sd_request_pure_total_witness:
  \<open>nb_change_prompt
       (Notebook catalog_fs ''add floral prints to dress''
          [''poorly rendered'', ''low quality'', ''disfigured'', ''disproportional'']
          ''iVBORw0KGgo='' None)
     = ''add floral prints to dress''
   \<and> compose_request
       (\<lambda>x. if x = 1 then ''1.0'' else if x = - 1 then ''-1.0'' else ''0.5'')
       (Notebook catalog_fs ''add floral prints to dress''
          [''poorly rendered'', ''low quality'', ''disfigured'', ''disproportional'']
          ''iVBORw0KGgo='' None)
     = Inr
       (Notebook catalog_fs ''add floral prints to dress''
          [''poorly rendered'', ''low quality'', ''disfigured'', ''disproportional'']
          ''iVBORw0KGgo=''
          (Some
            ''{"text_prompts": [{"text": "add floral prints to dress", "weight": 1.0}, {"text": "poorly rendered", "weight": -1.0}, {"text": "low quality", "weight": -1.0}, {"text": "disfigured", "weight": -1.0}, {"text": "disproportional", "weight": -1.0}], "cfg_scale": 10, "init_image": "iVBORw0KGgo=", "seed": 0, "start_schedule": 0.5, "steps": 30, "style_preset": "photographic", "image_strength": 0.5, "denoising_strength": 0.5}''))\<close>
proof -
  let ?repr = "\<lambda>x::rat. if x = 1 then ''1.0'' else if x = - 1 then ''-1.0'' else ''0.5''"
  let ?ns = "[''poorly rendered'', ''low quality'', ''disfigured'', ''disproportional'']"
  let ?nb = "Notebook catalog_fs ''add floral prints to dress'' ?ns ''iVBORw0KGgo='' None"
  have inputs: "nb_change_prompt ?nb = ''add floral prints to dress''
      \<and> nb_negative_prompts ?nb = ?ns \<and> nb_init_image_b64 ?nb = ''iVBORw0KGgo=''"
    by simp
  obtain body where
    body: \<open>body =
       ''{"text_prompts": [''
       @ join '', ''
           ((''{"text": '' @ py_encode_basestring_ascii ''add floral prints to dress''
               @ '', "weight": '' @ ?repr 1 @ ''}'')
            # map (\<lambda>negprompt. ''{"text": '' @ py_encode_basestring_ascii negprompt
                     @ '', "weight": '' @ ?repr (- 1) @ ''}'') ?ns)
       @ ''], "cfg_scale": 10, "init_image": '' @ py_encode_basestring_ascii ''iVBORw0KGgo=''
       @ '', "seed": 0, "start_schedule": '' @ ?repr (1 / 2)
       @ '', "steps": 30, "style_preset": "photographic", "image_strength": ''
       @ ?repr (1 / 2)
       @ '', "denoising_strength": '' @ ?repr (1 / 2) @ ''}''\<close>
    and step: "\<forall>nb. nb_change_prompt nb = ''add floral prints to dress''
               \<and> nb_negative_prompts nb = ?ns
               \<and> nb_init_image_b64 nb = ''iVBORw0KGgo=''
           \<longrightarrow> compose_request ?repr nb =
                 Inr (Notebook (nb_files nb) ''add floral prints to dress'' ?ns
                        ''iVBORw0KGgo='' (Some body))"
    using sd_request_pure_total [of "''add floral prints to dress''" ?repr ?ns "''iVBORw0KGgo=''"]
    by blast
  have run: "compose_request ?repr ?nb =
      Inr (Notebook (nb_files ?nb) ''add floral prints to dress'' ?ns ''iVBORw0KGgo=''
             (Some body))"
    using step inputs by blast
  have body_text: \<open>body =
      ''{"text_prompts": [{"text": "add floral prints to dress", "weight": 1.0}, {"text": "poorly rendered", "weight": -1.0}, {"text": "low quality", "weight": -1.0}, {"text": "disfigured", "weight": -1.0}, {"text": "disproportional", "weight": -1.0}], "cfg_scale": 10, "init_image": "iVBORw0KGgo=", "seed": 0, "start_schedule": 0.5, "steps": 30, "style_preset": "photographic", "image_strength": 0.5, "denoising_strength": 0.5}''\<close>
    unfolding body by (simp add: py_encode_basestring_ascii_def escape_ascii_def)
  show ?thesis
    using run by (simp add: body_text)
qed

section \<open>Response decoding: the claims\<close>

text \<open>
  C4. For every response whose artifacts list is empty, decoding fails with an index
  error; it returns no image and puts no placeholder in its place.
\<close>

theorem genimage_empty_artifacts:
  assumes "getitem_str response_body ''artifacts'' = Inr (PyList [])"
  shows "genimage image_open response_body = Inl IndexError"
  using assms by (simp add: genimage_def genimage_b64_str_def and_then_def)

theorem genimage_empty_artifacts_witness:
  "getitem_str (PyDict [(''artifacts'', PyList [])]) ''artifacts'' = Inr (PyList [])
   \<and> (\<forall>image_open. genimage image_open (PyDict [(''artifacts'', PyList [])]) = Inl IndexError)"
proof -
  have empty: "getitem_str (PyDict [(''artifacts'', PyList [])]) ''artifacts'' = Inr (PyList [])"
    by simp
  show ?thesis
    using genimage_empty_artifacts [OF empty] empty by simp
qed

text \<open>
  C7. Decoding consumes the first artifact only: two responses whose first artifacts
  give the same answer to \<^verbatim>\<open>.get("base64")\<close> decode to the same result, whatever
  else the first artifacts hold and however many artifacts follow.
\<close>

theorem genimage_first_artifact_only:
  assumes "getitem_str response_1 ''artifacts'' = Inr (PyList (artifact_1 # others_1))"
    and "getitem_str response_2 ''artifacts'' = Inr (PyList (artifact_2 # others_2))"
    and "py_get artifact_1 ''base64'' = py_get artifact_2 ''base64''"
  shows "genimage image_open response_1 = genimage image_open response_2"
  using assms by (simp add: genimage_def genimage_b64_str_def and_then_def)

theorem genimage_first_artifact_only_witness:
  "getitem_str (PyDict [(''artifacts'', PyList [PyDict [(''base64'', PyStr ''YWJj'')]])])
       ''artifacts''
     = Inr (PyList (PyDict [(''base64'', PyStr ''YWJj'')] # []))
   \<and> getitem_str
       (PyDict [(''result'', PyStr ''success''),
                (''artifacts'',
                   PyList [PyDict [(''seed'', PyInt 0), (''base64'', PyStr ''YWJj'')],
                           PyDict [(''base64'', PyStr ''AAAA'')], PyNone])])
       ''artifacts''
     = Inr (PyList (PyDict [(''seed'', PyInt 0), (''base64'', PyStr ''YWJj'')]
                    # [PyDict [(''base64'', PyStr ''AAAA'')], PyNone]))
   \<and> py_get (PyDict [(''base64'', PyStr ''YWJj'')]) ''base64''
     = py_get (PyDict [(''seed'', PyInt 0), (''base64'', PyStr ''YWJj'')]) ''base64''
   \<and> (\<forall>image_open.
        genimage image_open
          (PyDict [(''artifacts'', PyList [PyDict [(''base64'', PyStr ''YWJj'')]])])
        = genimage image_open
          (PyDict [(''result'', PyStr ''success''),
                   (''artifacts'',
                      PyList [PyDict [(''seed'', PyInt 0), (''base64'', PyStr ''YWJj'')],
                              PyDict [(''base64'', PyStr ''AAAA'')], PyNone])]))"
proof -
  let ?r1 = "PyDict [(''artifacts'', PyList [PyDict [(''base64'', PyStr ''YWJj'')]])]"
  let ?a2 = "PyDict [(''seed'', PyInt 0), (''base64'', PyStr ''YWJj'')]"
  let ?r2 = "PyDict [(''result'', PyStr ''success''),
                     (''artifacts'', PyList [?a2, PyDict [(''base64'', PyStr ''AAAA'')], PyNone])]"
  have one: "getitem_str ?r1 ''artifacts'' = Inr (PyList (PyDict [(''base64'', PyStr ''YWJj'')] # []))"
    by simp
  have two: "getitem_str ?r2 ''artifacts'' =
      Inr (PyList (?a2 # [PyDict [(''base64'', PyStr ''AAAA'')], PyNone]))"
    by simp
  have same: "py_get (PyDict [(''base64'', PyStr ''YWJj'')]) ''base64'' = py_get ?a2 ''base64''"
    by simp
  have "\<And>image_open. genimage image_open ?r1 = genimage image_open ?r2"
    by (rule genimage_first_artifact_only [OF one two same])
  then show ?thesis
    using one two same by blast
qed

text \<open>
  C10. When the artifacts list is not empty and its first artifact is an object without
  a \<^verbatim>\<open>"base64"\<close> field, the extraction raises nothing: \<^verbatim>\<open>.get\<close> yields \<^verbatim>\<open>None\<close>.
  Decoding fails one step later, where \<^verbatim>\<open>bytes(None, "utf-8")\<close> raises a type error.
\<close>

theorem genimage_missing_base64_field:
  assumes "getitem_str response_body ''artifacts'' = Inr (PyList (PyDict fields # others))"
    and "map_of fields ''base64'' = None"
  shows "genimage_b64_str response_body = Inr PyNone
         \<and> bytes_utf8 PyNone = Inl TypeError
         \<and> genimage image_open response_body = Inl TypeError"
  using assms by (simp add: genimage_def genimage_b64_str_def and_then_def)

theorem genimage_missing_base64_field_witness:
  "getitem_str (PyDict [(''artifacts'', PyList [PyDict [(''seed'', PyInt 0)]])]) ''artifacts''
     = Inr (PyList (PyDict [(''seed'', PyInt 0)] # []))
   \<and> map_of [(''seed'', PyInt 0)] ''base64'' = None
   \<and> genimage_b64_str (PyDict [(''artifacts'', PyList [PyDict [(''seed'', PyInt 0)]])])
     = Inr PyNone
   \<and> (\<forall>image_open.
        genimage image_open (PyDict [(''artifacts'', PyList [PyDict [(''seed'', PyInt 0)]])])
        = Inl TypeError)"
proof -
  let ?r = "PyDict [(''artifacts'', PyList [PyDict [(''seed'', PyInt 0)]])]"
  have first: "getitem_str ?r ''artifacts'' = Inr (PyList (PyDict [(''seed'', PyInt 0)] # []))"
    by simp
  have absent: "map_of [(''seed'', PyInt 0)] ''base64'' = None"
    by simp
  show ?thesis
    using genimage_missing_base64_field [OF first absent] first absent by blast
qed

end
